theory Spec2Isabelle
  imports Main "HOL-Library.Word"
begin

unbundle bit_operations_syntax

section \<open>The HID service module (samples/nrf\_desktop/src/services/hids.c)\<close>

subsection \<open>Constants and enumerations\<close>

type_synonym u8_t = "8 word"
type_synonym s8_t = "8 word"
type_synonym s16_t = "16 word"
type_synonym u16_t = "16 word"

definition REPORT_SIZE_MOUSE :: nat where "REPORT_SIZE_MOUSE = 5"
definition REPORT_SIZE_KEYBOARD :: nat where "REPORT_SIZE_KEYBOARD = 9"
definition REPORT_SIZE_MPLAYER :: nat where "REPORT_SIZE_MPLAYER = 1"

definition SCHAR_MAX :: int where "SCHAR_MAX = 127"
definition SCHAR_MIN :: int where "SCHAR_MIN = - 128"

datatype report_id =
  REPORT_ID_RESERVED | REPORT_ID_MOUSE | REPORT_ID_KEYBOARD | REPORT_ID_MPLAYER

datatype report_mode = REPORT_MODE_PROTOCOL | REPORT_MODE_BOOT

text \<open>
  \<open>enum target_report\<close> is declared in \<open>hid_event.h\<close>, which is not part of the
  source at hand.  Modelled from the spec: a logical report is one of Mouse, Keyboard,
  MediaPlayer; the constructors carry the names the source uses.
\<close>

datatype target_report =
  TARGET_REPORT_MOUSE | TARGET_REPORT_KEYBOARD | TARGET_REPORT_MPLAYER

text \<open>
  The two protocol-mode events of the HID service library.  A C enum can hold any
  other integer as well: \<open>HIDS_PM_EVT_OTHER\<close> stands for those values, which take the
  \<open>default\<close> branch of the switch in \<open>pm_evt_handler\<close>.
\<close>

datatype hids_pm_evt =
  HIDS_PM_EVT_BOOT_MODE_ENTERED | HIDS_PM_EVT_REPORT_MODE_ENTERED | HIDS_PM_EVT_OTHER nat

datatype hids_notif_evt =
  HIDS_CCCD_EVT_NOTIF_ENABLED | HIDS_CCCD_EVT_NOTIF_DISABLED | HIDS_CCCD_EVT_OTHER nat

text \<open>The build-time switches tested with \<open>IS_ENABLED\<close>.\<close>

record config =
  CONFIG_DESKTOP_HID_MOUSE :: bool
  CONFIG_DESKTOP_HID_KEYBOARD :: bool
  CONFIG_DESKTOP_HID_MPLAYER :: bool

subsection \<open>Module state\<close>

text \<open>
  The file-scope variables \<open>report_mode\<close>, \<open>report_enabled\<close> and \<open>report_index\<close>,
  and the function-local static \<open>initialized\<close> of \<open>event_handler\<close>.
\<close>

record hids_state =
  report_mode :: report_mode
  report_enabled :: "target_report \<Rightarrow> report_mode \<Rightarrow> bool"
  report_index :: "report_id \<Rightarrow> nat"
  initialized :: bool

text \<open>Static storage is zero-initialised.\<close>

definition init_state :: hids_state where
  "init_state = \<lparr> report_mode = REPORT_MODE_PROTOCOL,
                  report_enabled = (\<lambda>tr m. False),
                  report_index = (\<lambda>i. 0),
                  initialized = False \<rparr>"

subsection \<open>Events received and effects produced\<close>

text \<open>
  The event structures come from \<open>hid_event.h\<close> and \<open>ble_event.h\<close>, which are not
  part of the source at hand.  The three deltas of a mouse event are held as the
  \<open>int\<close> values that \<open>min\<close> and \<open>max\<close> compare after integer promotion; the button
  bitmap and the key codes are bytes.
\<close>

record hid_mouse_event =
  button_bm :: u8_t
  wheel :: int
  dx :: int
  dy :: int

record hid_keyboard_event =
  modifier_bm :: u8_t
  keys :: "u8_t list"

datatype peer_state =
  PEER_STATE_CONNECTED | PEER_STATE_DISCONNECTED | PEER_STATE_SECURED | PEER_STATE_OTHER nat

record ble_peer_event =
  state :: peer_state
  conn_id :: nat

datatype module_id = Module_ble_state | Module_other nat
datatype module_state = MODULE_STATE_READY | MODULE_STATE_OTHER nat

record module_state_event =
  mse_module_id :: module_id
  mse_state :: module_state

text \<open>
  What the handler tells apart with \<open>is_hid_mouse_event\<close>, \<open>is_hid_keyboard_event\<close>,
  \<open>is_ble_peer_event\<close> and \<open>is_module_state_event\<close>.  An event of any other type
  (identified by a number here) answers no to all four.
\<close>

datatype event =
    Hid_mouse_event hid_mouse_event
  | Hid_keyboard_event hid_keyboard_event
  | Ble_peer_event ble_peer_event
  | Module_state_event module_state_event
  | Other_event nat

text \<open>
  Everything the module does towards its collaborators, in program order: log lines,
  events submitted to the event manager, calls into the HID service library, and a
  failed \<open>__ASSERT_NO_MSG\<close>.
\<close>

datatype effect =
    Sys_log string
  | Submit_subscription_event target_report bool
  | Hids_boot_mouse_inp_rep_send u8_t s8_t s8_t
  | Hids_boot_kb_inp_rep_send "u8_t list" nat
  | Hids_inp_rep_send nat "u8_t list" nat
  | Hids_notify_connected nat
  | Hids_notify_disconnected nat
  | Hids_init
  | Submit_report_sent_event target_report
  | Module_set_state module_state
  | Assert_failed


subsection \<open>Subscription tracking\<close>

definition broadcast_subscription_change ::
  "target_report \<Rightarrow> report_mode \<Rightarrow> report_mode \<Rightarrow> hids_state \<Rightarrow> effect list" where
  "broadcast_subscription_change tr old_mode new_mode s =
     (if old_mode \<noteq> new_mode \<and>
         report_enabled s tr old_mode = report_enabled s tr new_mode
      then []
      else
        let enabled = report_enabled s tr new_mode in
        [Sys_log (''Notifications '' @ (if enabled then ''en'' else ''dis'') @ ''abled''),
         Submit_subscription_event tr enabled])"

definition pm_evt_handler ::
  "config \<Rightarrow> hids_pm_evt \<Rightarrow> hids_state \<Rightarrow> hids_state \<times> effect list" where
  "pm_evt_handler cfg evt s =
     (let old_mode = report_mode s;
          (s1, log) =
            (case evt of
               HIDS_PM_EVT_BOOT_MODE_ENTERED \<Rightarrow>
                 (s\<lparr>report_mode := REPORT_MODE_BOOT\<rparr>, [Sys_log ''Boot mode''])
             | HIDS_PM_EVT_REPORT_MODE_ENTERED \<Rightarrow>
                 (s\<lparr>report_mode := REPORT_MODE_PROTOCOL\<rparr>, [Sys_log ''Report mode''])
             | HIDS_PM_EVT_OTHER n \<Rightarrow> (s, []))
      in
        if report_mode s1 \<noteq> old_mode then
          (s1, log
             @ (if CONFIG_DESKTOP_HID_MOUSE cfg
                then broadcast_subscription_change TARGET_REPORT_MOUSE
                       old_mode (report_mode s1) s1 else [])
             @ (if CONFIG_DESKTOP_HID_KEYBOARD cfg
                then broadcast_subscription_change TARGET_REPORT_MOUSE
                       old_mode (report_mode s1) s1 else [])
             @ (if CONFIG_DESKTOP_HID_MPLAYER cfg
                then broadcast_subscription_change TARGET_REPORT_MOUSE
                       old_mode (report_mode s1) s1 else []))
        else (s1, log))"

definition notif_handler ::
  "hids_notif_evt \<Rightarrow> target_report \<Rightarrow> report_mode \<Rightarrow> hids_state
     \<Rightarrow> hids_state \<times> effect list" where
  "notif_handler evt tr mode s =
     (let asserted =
            (if evt = HIDS_CCCD_EVT_NOTIF_ENABLED \<or> evt = HIDS_CCCD_EVT_NOTIF_DISABLED
             then [] else [Assert_failed]);
          enabled = (evt = HIDS_CCCD_EVT_NOTIF_ENABLED);
          changed = (report_enabled s tr mode \<noteq> enabled);
          s1 = s\<lparr>report_enabled :=
                   (report_enabled s)(tr := (report_enabled s tr)(mode := enabled))\<rparr>
      in
        if report_mode s1 = mode \<and> changed
        then (s1, asserted @ broadcast_subscription_change tr mode mode s1)
        else (s1, asserted))"

definition mouse_notif_handler :: "hids_notif_evt \<Rightarrow> hids_state \<Rightarrow> hids_state \<times> effect list" where
  "mouse_notif_handler evt s =
     (let (s1, es) = notif_handler evt TARGET_REPORT_MOUSE REPORT_MODE_PROTOCOL s
      in (s1, Sys_log [] # es))"

definition boot_mouse_notif_handler :: "hids_notif_evt \<Rightarrow> hids_state \<Rightarrow> hids_state \<times> effect list" where
  "boot_mouse_notif_handler evt s =
     (let (s1, es) = notif_handler evt TARGET_REPORT_MOUSE REPORT_MODE_BOOT s
      in (s1, Sys_log [] # es))"

definition keyboard_notif_handler :: "hids_notif_evt \<Rightarrow> hids_state \<Rightarrow> hids_state \<times> effect list" where
  "keyboard_notif_handler evt s =
     (let (s1, es) = notif_handler evt TARGET_REPORT_KEYBOARD REPORT_MODE_PROTOCOL s
      in (s1, Sys_log [] # es))"

definition boot_keyboard_notif_handler :: "hids_notif_evt \<Rightarrow> hids_state \<Rightarrow> hids_state \<times> effect list" where
  "boot_keyboard_notif_handler evt s =
     (let (s1, es) = notif_handler evt TARGET_REPORT_KEYBOARD REPORT_MODE_BOOT s
      in (s1, Sys_log [] # es))"

definition mplayer_notif_handler :: "hids_notif_evt \<Rightarrow> hids_state \<Rightarrow> hids_state \<times> effect list" where
  "mplayer_notif_handler evt s =
     (let (s1, es) = notif_handler evt TARGET_REPORT_MPLAYER REPORT_MODE_PROTOCOL s
      in (s1, Sys_log [] # es))"

subsection \<open>Report encoding and sending\<close>

text \<open>
  \<open>sys_put_le16\<close> of Zephyr's \<open>misc/byteorder.h\<close> stores a 16-bit value least
  significant byte first: \<open>dst[0] = val; dst[1] = val >> 8\<close>.
\<close>

definition sys_put_le16 :: "u16_t \<Rightarrow> u8_t list" where
  "sys_put_le16 val = [ucast val, ucast (drop_bit 8 val)]"

text \<open>
  The five bytes that the report-mode branch of \<open>send_mouse_report\<close> writes into
  \<open>buffer\<close>.  The narrowing of the clamped values to \<open>s16_t\<close> is \<open>word_of_int\<close>; the
  operands of \<open><<\<close>, \<open>>>\<close>, \<open>&\<close> and \<open>|\<close> are promoted to \<open>int\<close> (\<open>uint\<close>), and the
  assignment to a \<open>u8_t\<close> cell keeps the low eight bits (\<open>word_of_int\<close>).
\<close>

definition mouse_report_buffer :: "hid_mouse_event \<Rightarrow> u8_t list" where
  "mouse_report_buffer event =
     (let wheel = (word_of_int (max (min (wheel event) 0x7f) (- 0x7f)) :: s16_t);
          x = (word_of_int (max (min (dx event) 0x07ff) (- 0x07ff)) :: s16_t);
          y = (word_of_int (max (min (dy event) 0x07ff) (- 0x07ff)) :: s16_t);
          x_buff = sys_put_le16 x;
          y_buff = sys_put_le16 y
      in
        [button_bm event,
         ucast wheel,
         x_buff ! 0,
         word_of_int (push_bit 4 (uint (y_buff ! 0)) OR (uint (x_buff ! 1) AND 0x0f)),
         word_of_int (push_bit 4 (uint (y_buff ! 1)) OR drop_bit 4 (uint (y_buff ! 0)))])"

definition send_mouse_report :: "hid_mouse_event \<Rightarrow> hids_state \<Rightarrow> effect list" where
  "send_mouse_report event s =
     (if report_mode s = REPORT_MODE_BOOT then
        let x = (word_of_int (max (min (dx event) SCHAR_MAX) SCHAR_MIN) :: s8_t);
            y = (word_of_int (max (min (dy event) SCHAR_MAX) SCHAR_MIN) :: s8_t)
        in [Hids_boot_mouse_inp_rep_send (button_bm event) x y]
      else
        let buffer = mouse_report_buffer event
        in [Hids_inp_rep_send (report_index s REPORT_ID_MOUSE) buffer (length buffer)])"

text \<open>
  The completion callbacks handed to the send calls; the library runs them later, once
  the report has gone out.
\<close>

definition mouse_report_sent :: "effect list" where
  "mouse_report_sent = [Submit_report_sent_event TARGET_REPORT_MOUSE]"

definition keyboard_report_sent :: "effect list" where
  "keyboard_report_sent = [Submit_report_sent_event TARGET_REPORT_KEYBOARD]"

text \<open>
  \<open>memcpy(&dst[off], src, n)\<close> with \<open>n\<close> the size of \<open>src\<close>: the cells of \<open>dst\<close> from
  \<open>off\<close> on take the bytes of \<open>src\<close>, the others keep theirs.
\<close>

definition memcpy_at :: "u8_t list \<Rightarrow> nat \<Rightarrow> u8_t list \<Rightarrow> u8_t list" where
  "memcpy_at dst off src = take off dst @ src @ drop (off + length src) dst"

text \<open>
  The assignments of \<open>send_keyboard\<close> to its local array \<open>report\<close>, applied to the
  array's previous contents \<open>report\<close> (a fresh stack array, whose contents C leaves
  indeterminate).
\<close>

definition keyboard_report_fill :: "u8_t list \<Rightarrow> hid_keyboard_event \<Rightarrow> u8_t list" where
  "keyboard_report_fill report event =
     (let r0 = report[0 := modifier_bm event];
          r1 = r0[1 := 0];
          r2 = memcpy_at r1 2 (keys event);
          r3 = r2[8 := 0]
      in r3)"

text \<open>
  The stack array is taken as zero-filled before the assignments; every one of its
  nine cells is overwritten when the event carries six key codes.
\<close>

definition send_keyboard :: "hid_keyboard_event \<Rightarrow> hids_state \<Rightarrow> effect list" where
  "send_keyboard event s =
     (let report = keyboard_report_fill (replicate REPORT_SIZE_KEYBOARD 0) event in
      if report_mode s = REPORT_MODE_BOOT then
        [Hids_boot_kb_inp_rep_send report (length report - 1)]
      else
        [Hids_inp_rep_send (report_index s REPORT_ID_KEYBOARD) report (length report)])"

subsection \<open>Initialisation, peer events and the event handler\<close>







subsection \<open>Observations on effect lists\<close>

text \<open>The subscription events among the effects, in order, as (report, enabled) pairs.\<close>

fun subscription_events :: "effect list \<Rightarrow> (target_report \<times> bool) list" where
  "subscription_events [] = []"
| "subscription_events (Submit_subscription_event tr en # es) =
     (tr, en) # subscription_events es"
| "subscription_events (_ # es) = subscription_events es"


fun is_log :: "effect \<Rightarrow> bool" where
  "is_log (Sys_log m) = True"
| "is_log _ = False"

text \<open>The derived value that the rest of the system sees.\<close>

definition effective_subscription :: "hids_state \<Rightarrow> target_report \<Rightarrow> bool" where
  "effective_subscription s tr = report_enabled s tr (report_mode s)"

text \<open>
  The 12-bit nibble-interleaved layout of the report descriptor, read back: x is byte 2
  with the low nibble of byte 3 as bits 8 to 11; y is the high nibble of byte 3 as bits
  0 to 3 with byte 4 as bits 4 to 11; each is sign-extended from 12 bits.  These two
  functions follow the documented layout, not the source, which only packs.
\<close>

definition unpack_x12 :: "u8_t list \<Rightarrow> int" where
  "unpack_x12 buf =
     signed_take_bit 11 (uint (buf ! 2) OR push_bit 8 (uint (buf ! 3) AND 0x0f))"

definition unpack_y12 :: "u8_t list \<Rightarrow> int" where
  "unpack_y12 buf =
     signed_take_bit 11 (drop_bit 4 (uint (buf ! 3)) OR push_bit 4 (uint (buf ! 4)))"

subsection \<open>Concrete builds and environments used in examples\<close>

definition full_build :: config where
  "full_build = \<lparr> CONFIG_DESKTOP_HID_MOUSE = True,
                   CONFIG_DESKTOP_HID_KEYBOARD = True,
                   CONFIG_DESKTOP_HID_MPLAYER = True \<rparr>"


section \<open>Properties of the report encoder\<close>

subsection \<open>Bit-level facts\<close>

lemma and_0x0f: "(k::int) AND 0x0f = take_bit 4 k"
  by (simp add: take_bit_eq_mask mask_eq_exp_minus_1)

lemma le16_low: "uint (sys_put_le16 (word_of_int k) ! 0) = take_bit 8 k"
  by (simp add: sys_put_le16_def unsigned_ucast_eq uint_word_of_int_eq)

lemma le16_high: "uint (sys_put_le16 (word_of_int k) ! 1) = take_bit 8 (drop_bit 8 k)"
  unfolding sys_put_le16_def
  by (rule bit_eqI) (auto simp add: bit_simps)

lemma byte3_uint:
  "uint (word_of_int (push_bit 4 (take_bit 8 cy) OR (take_bit 8 (drop_bit 8 cx) AND 0x0f)) :: u8_t)
     = push_bit 4 (take_bit 4 cy) OR take_bit 4 (drop_bit 8 cx)"
  unfolding and_0x0f
  by (rule bit_eqI) (auto simp add: bit_simps)

lemma byte4_uint:
  "uint (word_of_int (push_bit 4 (take_bit 8 (drop_bit 8 cy)) OR drop_bit 4 (take_bit 8 cy)) :: u8_t)
     = take_bit 8 (drop_bit 4 cy)"
  by (rule bit_eqI) (auto simp add: bit_simps)

lemma sint_narrow8: "- 128 \<le> k \<Longrightarrow> k \<le> 127 \<Longrightarrow> sint (word_of_int k :: 8 word) = k"
  by (simp add: signed_of_int signed_take_bit_int_eq_self)

lemma sint_wheel_byte:
  "- 127 \<le> k \<Longrightarrow> k \<le> 127 \<Longrightarrow> sint (ucast (word_of_int k :: s16_t) :: u8_t) = k"
proof -
  assume b: "- 127 \<le> k" "k \<le> 127"
  have "(ucast (word_of_int k :: s16_t) :: u8_t) = word_of_int k"
    by (rule bit_word_eqI) (auto simp add: bit_simps)
  with b show ?thesis by (simp add: sint_narrow8)
qed

lemma join_x12:
  "take_bit 8 cx OR push_bit 8 ((push_bit 4 (take_bit 4 cy) OR take_bit 4 (drop_bit 8 cx)) AND 0x0f)
     = take_bit 12 (cx::int)"
  unfolding and_0x0f
  by (rule bit_eqI) (auto simp add: bit_simps)

lemma join_y12:
  "drop_bit 4 (push_bit 4 (take_bit 4 cy) OR take_bit 4 (drop_bit 8 cx))
      OR push_bit 4 (take_bit 8 (drop_bit 4 cy))
     = take_bit 12 (cy::int)"
  by (rule bit_eqI) (auto simp add: bit_simps)

lemma signed12: "- 2048 \<le> k \<Longrightarrow> k < 2048 \<Longrightarrow> signed_take_bit 11 (take_bit 12 k) = (k::int)"
  by (simp add: signed_take_bit_take_bit signed_take_bit_int_eq_self)

subsection \<open>The report-mode mouse buffer\<close>

lemma mouse_report_buffer_bytes:
  fixes ev :: hid_mouse_event
  defines "cw \<equiv> max (min (wheel ev) 0x7f) (- 0x7f)"
    and "cx \<equiv> max (min (dx ev) 0x07ff) (- 0x07ff)"
    and "cy \<equiv> max (min (dy ev) 0x07ff) (- 0x07ff)"
  shows "\<exists>b1 b2 b3 b4.
     mouse_report_buffer ev = [button_bm ev, b1, b2, b3, b4] \<and>
     sint b1 = cw \<and>
     uint b2 = take_bit 8 cx \<and>
     uint b3 = push_bit 4 (take_bit 4 cy) OR take_bit 4 (drop_bit 8 cx) \<and>
     uint b4 = take_bit 8 (drop_bit 4 cy)"
proof -
  let ?b1 = "ucast (word_of_int cw :: s16_t) :: u8_t"
  let ?b2 = "sys_put_le16 (word_of_int cx) ! 0"
  let ?b3 = "word_of_int (push_bit 4 (uint (sys_put_le16 (word_of_int cy) ! 0))
               OR (uint (sys_put_le16 (word_of_int cx) ! 1) AND 0x0f)) :: u8_t"
  let ?b4 = "word_of_int (push_bit 4 (uint (sys_put_le16 (word_of_int cy) ! 1))
               OR drop_bit 4 (uint (sys_put_le16 (word_of_int cy) ! 0))) :: u8_t"
  have buf: "mouse_report_buffer ev = [button_bm ev, ?b1, ?b2, ?b3, ?b4]"
    by (simp add: mouse_report_buffer_def Let_def cw_def cx_def cy_def)
  have "- 127 \<le> cw" "cw \<le> 127"
    by (simp_all add: cw_def)
  then have w: "sint ?b1 = cw"
    by (rule sint_wheel_byte)
  have b2: "uint ?b2 = take_bit 8 cx"
    by (rule le16_low)
  have b3: "uint ?b3 = push_bit 4 (take_bit 4 cy) OR take_bit 4 (drop_bit 8 cx)"
    by (simp only: le16_low le16_high byte3_uint)
  have b4: "uint ?b4 = take_bit 8 (drop_bit 4 cy)"
    by (simp only: le16_low le16_high byte4_uint)
  from buf w b2 b3 b4 show ?thesis
    by blast
qed

lemma mouse_report_buffer_length: "length (mouse_report_buffer ev) = REPORT_SIZE_MOUSE"
  by (simp add: mouse_report_buffer_def Let_def REPORT_SIZE_MOUSE_def)

lemma send_mouse_report_protocol:
  "report_mode s \<noteq> REPORT_MODE_BOOT \<Longrightarrow>
   send_mouse_report ev s =
     [Hids_inp_rep_send (report_index s REPORT_ID_MOUSE) (mouse_report_buffer ev)
        (length (mouse_report_buffer ev))]"
  by (simp add: send_mouse_report_def Let_def)

text \<open>
  C3.  In report-protocol mode a mouse event is sent through the indexed-report path as
  exactly five bytes: byte 0 is the button bitmap; byte 1, read as a signed byte, is the
  wheel clamped to [-127, 127]; byte 2 is the low eight bits of x clamped to
  [-2047, 2047]; byte 3 has the low nibble of the clamped y in its high nibble and bits
  8 to 11 of the clamped x in its low nibble; byte 4 is bits 4 to 11 of the clamped y.
\<close>

theorem send_mouse_report_layout:
  assumes "report_mode s \<noteq> REPORT_MODE_BOOT"
  shows "\<exists>b1 b2 b3 b4.
     send_mouse_report ev s =
       [Hids_inp_rep_send (report_index s REPORT_ID_MOUSE)
          [button_bm ev, b1, b2, b3, b4] 5] \<and>
     sint b1 = max (min (wheel ev) 0x7f) (- 0x7f) \<and>
     uint b2 = take_bit 8 (max (min (dx ev) 0x07ff) (- 0x07ff)) \<and>
     uint b3 = push_bit 4 (take_bit 4 (max (min (dy ev) 0x07ff) (- 0x07ff)))
                 OR take_bit 4 (drop_bit 8 (max (min (dx ev) 0x07ff) (- 0x07ff))) \<and>
     uint b4 = take_bit 8 (drop_bit 4 (max (min (dy ev) 0x07ff) (- 0x07ff)))"
proof -
  obtain b1 b2 b3 b4 where
    buf: "mouse_report_buffer ev = [button_bm ev, b1, b2, b3, b4]"
    and rest: "sint b1 = max (min (wheel ev) 0x7f) (- 0x7f)"
      "uint b2 = take_bit 8 (max (min (dx ev) 0x07ff) (- 0x07ff))"
      "uint b3 = push_bit 4 (take_bit 4 (max (min (dy ev) 0x07ff) (- 0x07ff)))
                 OR take_bit 4 (drop_bit 8 (max (min (dx ev) 0x07ff) (- 0x07ff)))"
      "uint b4 = take_bit 8 (drop_bit 4 (max (min (dy ev) 0x07ff) (- 0x07ff)))"
    using mouse_report_buffer_bytes [of ev] by blast
  have "send_mouse_report ev s =
       [Hids_inp_rep_send (report_index s REPORT_ID_MOUSE)
          [button_bm ev, b1, b2, b3, b4] 5]"
    using assms by (simp add: send_mouse_report_protocol buf)
  with rest show ?thesis
    by blast
qed

theorem send_mouse_report_layout_witness:
  "report_mode init_state \<noteq> REPORT_MODE_BOOT \<and>
   (\<exists>b1 b2 b3 b4.
     send_mouse_report \<lparr>button_bm = 0x81, wheel = - 3, dx = - 1, dy = 300\<rparr> init_state =
       [Hids_inp_rep_send (report_index init_state REPORT_ID_MOUSE)
          [button_bm \<lparr>button_bm = 0x81, wheel = - 3, dx = - 1, dy = 300\<rparr>, b1, b2, b3, b4] 5] \<and>
     sint b1 = max (min (wheel \<lparr>button_bm = 0x81, wheel = - 3, dx = - 1, dy = 300\<rparr>) 0x7f) (- 0x7f) \<and>
     uint b2 = take_bit 8 (max (min (dx \<lparr>button_bm = 0x81, wheel = - 3, dx = - 1, dy = 300\<rparr>) 0x07ff) (- 0x07ff)) \<and>
     uint b3 = push_bit 4 (take_bit 4 (max (min (dy \<lparr>button_bm = 0x81, wheel = - 3, dx = - 1, dy = 300\<rparr>) 0x07ff) (- 0x07ff)))
                 OR take_bit 4 (drop_bit 8 (max (min (dx \<lparr>button_bm = 0x81, wheel = - 3, dx = - 1, dy = 300\<rparr>) 0x07ff) (- 0x07ff))) \<and>
     uint b4 = take_bit 8 (drop_bit 4 (max (min (dy \<lparr>button_bm = 0x81, wheel = - 3, dx = - 1, dy = 300\<rparr>) 0x07ff) (- 0x07ff))))"
proof -
  have h: "report_mode init_state \<noteq> REPORT_MODE_BOOT"
    by (simp add: init_state_def)
  from h send_mouse_report_layout [OF h] show ?thesis
    by (rule conjI)
qed

text \<open>
  C10.  When dx and dy already lie in [-2047, 2047], reading bytes 2 to 4 of the
  report-mode mouse report back with the 12-bit nibble-interleaved layout gives dx and
  dy again, whatever the wheel and the buttons are.
\<close>

theorem mouse_pack_unpack_roundtrip:
  assumes "report_mode s \<noteq> REPORT_MODE_BOOT"
    and "- 2047 \<le> dx ev" "dx ev \<le> 2047" "- 2047 \<le> dy ev" "dy ev \<le> 2047"
  shows "\<exists>idx buf.
     send_mouse_report ev s = [Hids_inp_rep_send idx buf 5] \<and>
     unpack_x12 buf = dx ev \<and> unpack_y12 buf = dy ev"
proof -
  from assms have cx: "max (min (dx ev) 0x07ff) (- 0x07ff) = dx ev"
    and cy: "max (min (dy ev) 0x07ff) (- 0x07ff) = dy ev"
    by simp_all
  obtain b1 b2 b3 b4 where buf: "mouse_report_buffer ev = [button_bm ev, b1, b2, b3, b4]"
    and b2: "uint b2 = take_bit 8 (dx ev)"
    and b3: "uint b3 = push_bit 4 (take_bit 4 (dy ev)) OR take_bit 4 (drop_bit 8 (dx ev))"
    and b4: "uint b4 = take_bit 8 (drop_bit 4 (dy ev))"
    using mouse_report_buffer_bytes [of ev] unfolding cx cy by blast
  have n2: "mouse_report_buffer ev ! 2 = b2" and n3: "mouse_report_buffer ev ! 3 = b3"
    and n4: "mouse_report_buffer ev ! 4 = b4"
    by (simp_all add: buf)
  have "unpack_x12 (mouse_report_buffer ev) = signed_take_bit 11 (take_bit 12 (dx ev))"
    by (simp only: unpack_x12_def n2 n3 b2 b3 join_x12)
  then have x: "unpack_x12 (mouse_report_buffer ev) = dx ev"
    using assms by (simp add: signed12)
  have "unpack_y12 (mouse_report_buffer ev) = signed_take_bit 11 (take_bit 12 (dy ev))"
    by (simp only: unpack_y12_def n3 n4 b3 b4 join_y12)
  then have y: "unpack_y12 (mouse_report_buffer ev) = dy ev"
    using assms by (simp add: signed12)
  have "length (mouse_report_buffer ev) = 5"
    by (simp add: buf)
  with assms(1) have "send_mouse_report ev s =
      [Hids_inp_rep_send (report_index s REPORT_ID_MOUSE) (mouse_report_buffer ev) 5]"
    by (simp add: send_mouse_report_protocol)
  with x y show ?thesis
    by blast
qed

theorem mouse_pack_unpack_roundtrip_witness:
  "report_mode init_state \<noteq> REPORT_MODE_BOOT \<and>
   - 2047 \<le> dx \<lparr>button_bm = 0, wheel = 9, dx = - 2047, dy = 1234\<rparr> \<and>
   dx \<lparr>button_bm = 0, wheel = 9, dx = - 2047, dy = 1234\<rparr> \<le> 2047 \<and>
   - 2047 \<le> dy \<lparr>button_bm = 0, wheel = 9, dx = - 2047, dy = 1234\<rparr> \<and>
   dy \<lparr>button_bm = 0, wheel = 9, dx = - 2047, dy = 1234\<rparr> \<le> 2047 \<and>
   (\<exists>idx buf.
     send_mouse_report \<lparr>button_bm = 0, wheel = 9, dx = - 2047, dy = 1234\<rparr> init_state =
       [Hids_inp_rep_send idx buf 5] \<and>
     unpack_x12 buf = dx \<lparr>button_bm = 0, wheel = 9, dx = - 2047, dy = 1234\<rparr> \<and>
     unpack_y12 buf = dy \<lparr>button_bm = 0, wheel = 9, dx = - 2047, dy = 1234\<rparr>)"
proof -
  let ?ev = "\<lparr>button_bm = 0, wheel = 9, dx = - 2047, dy = 1234\<rparr> :: hid_mouse_event"
  have h: "report_mode init_state \<noteq> REPORT_MODE_BOOT"
    by (simp add: init_state_def)
  have r: "- 2047 \<le> dx ?ev" "dx ?ev \<le> 2047" "- 2047 \<le> dy ?ev" "dy ?ev \<le> 2047"
    by simp_all
  from h r mouse_pack_unpack_roundtrip [OF h r] show ?thesis
    by (intro conjI)
qed

text \<open>
  C4 (as amended).  In report-protocol mode the event dx = 3000, dy = -3000,
  wheel = 200, buttons = 0x05 is sent as the five bytes 05 7F FF 17 80: byte 0 is 0x05,
  the wheel byte is 127 (200 is clamped to the upper bound 127, not to -127), and
  bytes 2 to 4 read back with the 12-bit layout as x = 2047 and y = -2047.
\<close>

theorem send_mouse_report_example:
  assumes "report_mode s \<noteq> REPORT_MODE_BOOT"
  shows "send_mouse_report \<lparr>button_bm = 0x05, wheel = 200, dx = 3000, dy = - 3000\<rparr> s =
       [Hids_inp_rep_send (report_index s REPORT_ID_MOUSE) [0x05, 0x7f, 0xff, 0x17, 0x80] 5] \<and>
     sint (0x7f :: u8_t) = 127 \<and>
     unpack_x12 [0x05, 0x7f, 0xff, 0x17, 0x80] = 2047 \<and>
     unpack_y12 [0x05, 0x7f, 0xff, 0x17, 0x80] = - 2047"
proof -
  have "mouse_report_buffer \<lparr>button_bm = 0x05, wheel = 200, dx = 3000, dy = - 3000\<rparr>
          = [0x05, 0x7f, 0xff, 0x17, 0x80]"
    by (simp add: mouse_report_buffer_def sys_put_le16_def Let_def)
  with assms have "send_mouse_report \<lparr>button_bm = 0x05, wheel = 200, dx = 3000, dy = - 3000\<rparr> s =
       [Hids_inp_rep_send (report_index s REPORT_ID_MOUSE) [0x05, 0x7f, 0xff, 0x17, 0x80] 5]"
    by (simp add: send_mouse_report_protocol)
  moreover have "sint (0x7f :: u8_t) = 127"
    by simp
  moreover have "unpack_x12 [0x05, 0x7f, 0xff, 0x17, 0x80] = 2047"
    by (simp add: unpack_x12_def)
  moreover have "unpack_y12 [0x05, 0x7f, 0xff, 0x17, 0x80] = - 2047"
    by (simp add: unpack_y12_def)
  ultimately show ?thesis
    by blast
qed

theorem send_mouse_report_example_witness:
  "report_mode init_state \<noteq> REPORT_MODE_BOOT \<and>
   send_mouse_report \<lparr>button_bm = 0x05, wheel = 200, dx = 3000, dy = - 3000\<rparr> init_state =
       [Hids_inp_rep_send 0 [0x05, 0x7f, 0xff, 0x17, 0x80] 5]"
proof -
  have h: "report_mode init_state \<noteq> REPORT_MODE_BOOT"
    by (simp add: init_state_def)
  with send_mouse_report_example [OF h] show ?thesis
    by (simp add: init_state_def)
qed

text \<open>
  The specification's example gives the wheel 200 as clamped to -127; the wheel byte of
  the encoding is 127.
\<close>

theorem send_mouse_report_wheel_counterexample:
  "sint (mouse_report_buffer \<lparr>button_bm = 0x05, wheel = 200, dx = 3000, dy = - 3000\<rparr> ! 1)
     \<noteq> - 127"
  by (simp add: mouse_report_buffer_def sys_put_le16_def Let_def)

subsection \<open>The boot-mode mouse report\<close>

text \<open>
  C5.  In boot-protocol mode a mouse event goes to the boot-mouse path with three
  fields: the button bitmap unchanged, and x and y, which read as signed bytes are dx
  and dy saturated to [-128, 127].  The wheel has no influence on what is sent.  For
  dx = 3000, dy = -3000, buttons = 0x05 the fields are 0x05, 127 and -128.
\<close>

theorem send_mouse_report_boot:
  assumes "report_mode s = REPORT_MODE_BOOT"
  shows "(\<exists>x y.
       send_mouse_report ev s = [Hids_boot_mouse_inp_rep_send (button_bm ev) x y] \<and>
       sint x = max (min (dx ev) 127) (- 128) \<and>
       sint y = max (min (dy ev) 127) (- 128) \<and>
       - 128 \<le> sint x \<and> sint x \<le> 127 \<and> - 128 \<le> sint y \<and> sint y \<le> 127) \<and>
     send_mouse_report (ev\<lparr>wheel := w\<rparr>) s = send_mouse_report ev s \<and>
     (\<exists>x y.
       send_mouse_report \<lparr>button_bm = 0x05, wheel = w, dx = 3000, dy = - 3000\<rparr> s =
         [Hids_boot_mouse_inp_rep_send 0x05 x y] \<and> sint x = 127 \<and> sint y = - 128)"
proof -
  let ?x = "word_of_int (max (min (dx ev) 127) (- 128)) :: s8_t"
  let ?y = "word_of_int (max (min (dy ev) 127) (- 128)) :: s8_t"
  have send: "send_mouse_report ev s = [Hids_boot_mouse_inp_rep_send (button_bm ev) ?x ?y]"
    using assms by (simp add: send_mouse_report_def SCHAR_MAX_def SCHAR_MIN_def)
  have x: "sint ?x = max (min (dx ev) 127) (- 128)"
    by (rule sint_narrow8) simp_all
  have y: "sint ?y = max (min (dy ev) 127) (- 128)"
    by (rule sint_narrow8) simp_all
  have xb: "- 128 \<le> sint ?x \<and> sint ?x \<le> 127"
    unfolding x by simp
  have yb: "- 128 \<le> sint ?y \<and> sint ?y \<le> 127"
    unfolding y by simp
  have general: "\<exists>x y.
       send_mouse_report ev s = [Hids_boot_mouse_inp_rep_send (button_bm ev) x y] \<and>
       sint x = max (min (dx ev) 127) (- 128) \<and>
       sint y = max (min (dy ev) 127) (- 128) \<and>
       - 128 \<le> sint x \<and> sint x \<le> 127 \<and> - 128 \<le> sint y \<and> sint y \<le> 127"
    using send x y xb yb by blast
  have no_wheel: "send_mouse_report (ev\<lparr>wheel := w\<rparr>) s = send_mouse_report ev s"
    using assms by (simp add: send_mouse_report_def)
  have "send_mouse_report \<lparr>button_bm = 0x05, wheel = w, dx = 3000, dy = - 3000\<rparr> s =
         [Hids_boot_mouse_inp_rep_send 0x05 127 (- 128)]"
    using assms by (simp add: send_mouse_report_def SCHAR_MAX_def SCHAR_MIN_def)
  moreover have "sint (127 :: s8_t) = 127" "sint (- 128 :: s8_t) = - 128"
    by simp_all
  ultimately have example: "\<exists>x y.
       send_mouse_report \<lparr>button_bm = 0x05, wheel = w, dx = 3000, dy = - 3000\<rparr> s =
         [Hids_boot_mouse_inp_rep_send 0x05 x y] \<and> sint x = 127 \<and> sint y = - 128"
    by blast
  from general no_wheel example show ?thesis
    by (intro conjI)
qed

theorem send_mouse_report_boot_witness:
  "report_mode (init_state\<lparr>report_mode := REPORT_MODE_BOOT\<rparr>) = REPORT_MODE_BOOT \<and>
   send_mouse_report (\<lparr>button_bm = 0x05, wheel = 200, dx = 3000, dy = - 3000\<rparr>\<lparr>wheel := 7\<rparr>)
       (init_state\<lparr>report_mode := REPORT_MODE_BOOT\<rparr>) =
     send_mouse_report \<lparr>button_bm = 0x05, wheel = 200, dx = 3000, dy = - 3000\<rparr>
       (init_state\<lparr>report_mode := REPORT_MODE_BOOT\<rparr>)"
proof -
  have h: "report_mode (init_state\<lparr>report_mode := REPORT_MODE_BOOT\<rparr>) = REPORT_MODE_BOOT"
    by simp
  from h send_mouse_report_boot [OF h, THEN conjunct2, THEN conjunct1] show ?thesis
    by (rule conjI)
qed

subsection \<open>The keyboard report\<close>

lemma keyboard_report_fill_eq:
  assumes "length report = 9" and "length (keys ev) = 6"
  shows "keyboard_report_fill report ev = modifier_bm ev # 0 # keys ev @ [0]"
proof -
  obtain a b c d e f g h i where r: "report = [a, b, c, d, e, f, g, h, i]"
    using assms(1) by (auto simp add: length_Suc_conv eval_nat_numeral)
  obtain k0 k1 k2 k3 k4 k5 where k: "keys ev = [k0, k1, k2, k3, k4, k5]"
    using assms(2) by (auto simp add: length_Suc_conv eval_nat_numeral)
  show ?thesis
    by (simp add: keyboard_report_fill_def memcpy_at_def r k eval_nat_numeral)
qed

text \<open>
  C6.  For a keyboard event with six key codes the report is the nine bytes: modifier
  bitmap, 0, the six key codes in input order, 0.  Report-protocol mode sends it through
  the indexed path with length 9, boot-protocol mode sends the same buffer through the
  boot-keyboard path with length 8.  Modifiers 0x02 with keys 4, 5, 0, 0, 0, 0 give
  02 00 04 05 00 00 00 00 00.
\<close>

theorem send_keyboard_layout:
  assumes "length (keys ev) = 6"
  shows "send_keyboard ev s =
       (if report_mode s = REPORT_MODE_BOOT
        then [Hids_boot_kb_inp_rep_send (modifier_bm ev # 0 # keys ev @ [0]) 8]
        else [Hids_inp_rep_send (report_index s REPORT_ID_KEYBOARD)
                (modifier_bm ev # 0 # keys ev @ [0]) 9]) \<and>
     length (modifier_bm ev # 0 # keys ev @ [0]) = 9 \<and>
     send_keyboard \<lparr>modifier_bm = 0x02, keys = [4, 5, 0, 0, 0, 0]\<rparr> s =
       (if report_mode s = REPORT_MODE_BOOT
        then [Hids_boot_kb_inp_rep_send [0x02, 0x00, 4, 5, 0, 0, 0, 0, 0x00] 8]
        else [Hids_inp_rep_send (report_index s REPORT_ID_KEYBOARD)
                [0x02, 0x00, 4, 5, 0, 0, 0, 0, 0x00] 9])"
proof -
  have fill: "keyboard_report_fill (replicate REPORT_SIZE_KEYBOARD 0) e =
      modifier_bm e # 0 # keys e @ [0]" if "length (keys e) = 6" for e
    using that by (simp add: keyboard_report_fill_eq REPORT_SIZE_KEYBOARD_def)
  have gen: "send_keyboard e s =
       (if report_mode s = REPORT_MODE_BOOT
        then [Hids_boot_kb_inp_rep_send (modifier_bm e # 0 # keys e @ [0]) 8]
        else [Hids_inp_rep_send (report_index s REPORT_ID_KEYBOARD)
                (modifier_bm e # 0 # keys e @ [0]) 9])" if "length (keys e) = 6" for e
    using that by (simp add: send_keyboard_def fill)
  have len: "length (modifier_bm ev # 0 # keys ev @ [0]) = 9"
    using assms by simp
  have ex: "send_keyboard \<lparr>modifier_bm = 0x02, keys = [4, 5, 0, 0, 0, 0]\<rparr> s =
       (if report_mode s = REPORT_MODE_BOOT
        then [Hids_boot_kb_inp_rep_send [0x02, 0x00, 4, 5, 0, 0, 0, 0, 0x00] 8]
        else [Hids_inp_rep_send (report_index s REPORT_ID_KEYBOARD)
                [0x02, 0x00, 4, 5, 0, 0, 0, 0, 0x00] 9])"
    using gen [of "\<lparr>modifier_bm = 0x02, keys = [4, 5, 0, 0, 0, 0]\<rparr>"] by simp
  from gen [OF assms] len ex show ?thesis
    by (intro conjI)
qed

theorem send_keyboard_layout_witness:
  "length (keys \<lparr>modifier_bm = 0x02, keys = [4, 5, 0, 0, 0, 0]\<rparr>) = 6 \<and>
   send_keyboard \<lparr>modifier_bm = 0x02, keys = [4, 5, 0, 0, 0, 0]\<rparr> init_state =
     [Hids_inp_rep_send 0 [0x02, 0x00, 4, 5, 0, 0, 0, 0, 0x00] 9] \<and>
   send_keyboard \<lparr>modifier_bm = 0x02, keys = [4, 5, 0, 0, 0, 0]\<rparr>
       (init_state\<lparr>report_mode := REPORT_MODE_BOOT\<rparr>) =
     [Hids_boot_kb_inp_rep_send [0x02, 0x00, 4, 5, 0, 0, 0, 0, 0x00] 8]"
proof -
  let ?ev = "\<lparr>modifier_bm = 0x02, keys = [4, 5, 0, 0, 0, 0]\<rparr> :: hid_keyboard_event"
  have h: "length (keys ?ev) = 6"
    by simp
  from send_keyboard_layout [OF h, of init_state]
  have a: "send_keyboard ?ev init_state =
     [Hids_inp_rep_send 0 [0x02, 0x00, 4, 5, 0, 0, 0, 0, 0x00] 9]"
    by (simp add: init_state_def)
  from send_keyboard_layout [OF h, of "init_state\<lparr>report_mode := REPORT_MODE_BOOT\<rparr>"]
  have b: "send_keyboard ?ev (init_state\<lparr>report_mode := REPORT_MODE_BOOT\<rparr>) =
     [Hids_boot_kb_inp_rep_send [0x02, 0x00, 4, 5, 0, 0, 0, 0, 0x00] 8]"
    by simp
  from h a b show ?thesis
    by (intro conjI)
qed

section \<open>Properties of the subscription tracker\<close>

lemma subscription_events_append:
  "subscription_events (xs @ ys) = subscription_events xs @ subscription_events ys"
  by (induction xs rule: subscription_events.induct) simp_all

lemma subscription_events_broadcast:
  "subscription_events (broadcast_subscription_change tr old_mode new_mode s) =
     (if old_mode \<noteq> new_mode \<and>
         report_enabled s tr old_mode = report_enabled s tr new_mode
      then [] else [(tr, report_enabled s tr new_mode)])"
  by (simp add: broadcast_subscription_change_def Let_def)

lemma pm_evt_handler_state:
  "fst (pm_evt_handler cfg evt s) =
     (case evt of
        HIDS_PM_EVT_BOOT_MODE_ENTERED \<Rightarrow> s\<lparr>report_mode := REPORT_MODE_BOOT\<rparr>
      | HIDS_PM_EVT_REPORT_MODE_ENTERED \<Rightarrow> s\<lparr>report_mode := REPORT_MODE_PROTOCOL\<rparr>
      | HIDS_PM_EVT_OTHER n \<Rightarrow> s)"
  by (cases evt) (simp_all add: pm_evt_handler_def Let_def)

lemma pm_evt_handler_other:
  "pm_evt_handler cfg (HIDS_PM_EVT_OTHER n) s = (s, [])"
  by (simp add: pm_evt_handler_def Let_def)

text \<open>
  What a mode event emits: one notification for the mouse per enabled build switch when
  the mode changes and the two mouse cells differ, and nothing else.
\<close>

lemma pm_evt_handler_subscription_events:
  "subscription_events (snd (pm_evt_handler cfg evt s)) =
     (let new_mode = report_mode (fst (pm_evt_handler cfg evt s)) in
      if new_mode \<noteq> report_mode s \<and>
         report_enabled s TARGET_REPORT_MOUSE (report_mode s)
           \<noteq> report_enabled s TARGET_REPORT_MOUSE new_mode
      then replicate
             ((if CONFIG_DESKTOP_HID_MOUSE cfg then 1 else 0)
              + (if CONFIG_DESKTOP_HID_KEYBOARD cfg then 1 else 0)
              + (if CONFIG_DESKTOP_HID_MPLAYER cfg then 1 else 0))
             (TARGET_REPORT_MOUSE, report_enabled s TARGET_REPORT_MOUSE new_mode)
      else [])"
  by (cases evt)
    (simp_all add: pm_evt_handler_def Let_def subscription_events_append
       subscription_events_broadcast)

lemma pm_evt_handler_same_mode:
  assumes "report_mode (fst (pm_evt_handler cfg evt s)) = report_mode s"
  shows "fst (pm_evt_handler cfg evt s) = s"
    and "subscription_events (snd (pm_evt_handler cfg evt s)) = []"
proof -
  have same: "s\<lparr>report_mode := m\<rparr> = s" if "m = report_mode s" for m
    using that by simp
  show "fst (pm_evt_handler cfg evt s) = s"
    using assms by (cases evt) (simp_all add: pm_evt_handler_state same)
  show "subscription_events (snd (pm_evt_handler cfg evt s)) = []"
    using assms by (simp add: pm_evt_handler_subscription_events Let_def)
qed

lemma notif_handler_state:
  "fst (notif_handler evt tr mode s) =
     s\<lparr>report_enabled :=
         (report_enabled s)
           (tr := (report_enabled s tr)(mode := (evt = HIDS_CCCD_EVT_NOTIF_ENABLED)))\<rparr>"
  by (simp add: notif_handler_def Let_def)

lemma notif_handler_subscription_events:
  "subscription_events (snd (notif_handler evt tr mode s)) =
     (if report_mode s = mode \<and>
         report_enabled s tr mode \<noteq> (evt = HIDS_CCCD_EVT_NOTIF_ENABLED)
      then [(tr, evt = HIDS_CCCD_EVT_NOTIF_ENABLED)] else [])"
  by (simp add: notif_handler_def Let_def subscription_events_append
      subscription_events_broadcast)

text \<open>
  A toggle emits a notification for its report exactly when the effective subscription
  of that report changes, and the notification carries the new value; the effective
  subscription of every other report stays as it was.
\<close>

lemma notif_handler_emits_iff_effective_changes:
  "subscription_events (snd (notif_handler evt tr mode s)) =
     (if effective_subscription (fst (notif_handler evt tr mode s)) tr
           \<noteq> effective_subscription s tr
      then [(tr, effective_subscription (fst (notif_handler evt tr mode s)) tr)]
      else [])"
  by (auto simp add: notif_handler_subscription_events notif_handler_state
      effective_subscription_def)

lemma notif_handler_other_reports:
  "tr' \<noteq> tr \<Longrightarrow>
   effective_subscription (fst (notif_handler evt tr mode s)) tr' = effective_subscription s tr'"
  by (simp add: notif_handler_state effective_subscription_def)

text \<open>
  C1 (the code at a failing input).  Build with all three reports; the client enables
  boot-mouse notifications while the mode is Report, then enters Boot mode, then
  returns to Report mode.  The claim has each switch emit exactly one notification for
  the mouse.  The handler calls \<open>broadcast_subscription_change\<close> with
  \<open>TARGET_REPORT_MOUSE\<close> under each of the three build switches, so each switch emits
  three.
\<close>

theorem pm_evt_handler_mouse_notified_thrice:
  "subscription_events (snd (pm_evt_handler full_build HIDS_PM_EVT_BOOT_MODE_ENTERED
      (fst (boot_mouse_notif_handler HIDS_CCCD_EVT_NOTIF_ENABLED init_state)))) =
     [(TARGET_REPORT_MOUSE, True), (TARGET_REPORT_MOUSE, True), (TARGET_REPORT_MOUSE, True)] \<and>
   subscription_events (snd (pm_evt_handler full_build HIDS_PM_EVT_REPORT_MODE_ENTERED
      (fst (pm_evt_handler full_build HIDS_PM_EVT_BOOT_MODE_ENTERED
        (fst (boot_mouse_notif_handler HIDS_CCCD_EVT_NOTIF_ENABLED init_state)))))) =
     [(TARGET_REPORT_MOUSE, False), (TARGET_REPORT_MOUSE, False), (TARGET_REPORT_MOUSE, False)]"
  by (simp add: pm_evt_handler_subscription_events pm_evt_handler_state
      boot_mouse_notif_handler_def notif_handler_def Let_def init_state_def full_build_def
      eval_nat_numeral)

text \<open>
  C2 (the code at a failing input).  Build with all three reports; the client enables
  boot-keyboard notifications while the mode is Report, then enters Boot mode.  The
  effective subscription of the keyboard goes from disabled to enabled, and the mode
  event emits no notification at all: the keyboard is never passed to
  \<open>broadcast_subscription_change\<close> by \<open>pm_evt_handler\<close>.
\<close>

theorem pm_evt_handler_keyboard_not_notified:
  "effective_subscription
     (fst (boot_keyboard_notif_handler HIDS_CCCD_EVT_NOTIF_ENABLED init_state))
     TARGET_REPORT_KEYBOARD = False \<and>
   effective_subscription
     (fst (pm_evt_handler full_build HIDS_PM_EVT_BOOT_MODE_ENTERED
        (fst (boot_keyboard_notif_handler HIDS_CCCD_EVT_NOTIF_ENABLED init_state))))
     TARGET_REPORT_KEYBOARD = True \<and>
   subscription_events (snd (pm_evt_handler full_build HIDS_PM_EVT_BOOT_MODE_ENTERED
      (fst (boot_keyboard_notif_handler HIDS_CCCD_EVT_NOTIF_ENABLED init_state)))) = []"
  by (simp add: pm_evt_handler_subscription_events pm_evt_handler_state
      boot_keyboard_notif_handler_def notif_handler_def Let_def init_state_def
      effective_subscription_def)

text \<open>
  What holds of a toggle for a mode other than the current one: the new value is stored
  in the matrix cell of (report, mode), the mode stays, no notification is emitted, and
  an enable or a disable event has no effect at all towards the outside.
\<close>

lemma notif_handler_inactive_mode_silent:
  assumes "mode \<noteq> report_mode s"
  shows "report_enabled (fst (notif_handler evt tr mode s)) tr mode
           = (evt = HIDS_CCCD_EVT_NOTIF_ENABLED)"
    and "report_mode (fst (notif_handler evt tr mode s)) = report_mode s"
    and "subscription_events (snd (notif_handler evt tr mode s)) = []"
    and "evt = HIDS_CCCD_EVT_NOTIF_ENABLED \<or> evt = HIDS_CCCD_EVT_NOTIF_DISABLED
           \<Longrightarrow> snd (notif_handler evt tr mode s) = []"
proof -
  show "report_enabled (fst (notif_handler evt tr mode s)) tr mode
           = (evt = HIDS_CCCD_EVT_NOTIF_ENABLED)"
    by (simp add: notif_handler_state)
  show "report_mode (fst (notif_handler evt tr mode s)) = report_mode s"
    by (simp add: notif_handler_state)
  show "subscription_events (snd (notif_handler evt tr mode s)) = []"
    using assms by (auto simp add: notif_handler_subscription_events)
  show "snd (notif_handler evt tr mode s) = []"
    if "evt = HIDS_CCCD_EVT_NOTIF_ENABLED \<or> evt = HIDS_CCCD_EVT_NOTIF_DISABLED"
    using that assms [symmetric] by (auto simp add: notif_handler_def Let_def)
qed

text \<open>
  C7 (the code at a failing input).  Build with all three reports.  The client enters
  Boot mode and, while Boot is current, enables the media-player notifications, which
  belong to Report mode.  The toggle stores the value in the Report-mode cell and emits
  no notification, as the claim says.  The claim then has the stored value observable
  once a mode event makes Report mode current.  The matrix is read by
  \<open>broadcast_subscription_change\<close> only, and \<open>pm_evt_handler\<close> calls it for the mouse in
  all three of its branches: on the return to Report mode the handler's whole output is
  the log line \<open>Report mode\<close>, and the stored media-player value reaches nobody.
\<close>

theorem notif_handler_latent_value_not_announced:
  "report_mode (fst (pm_evt_handler full_build HIDS_PM_EVT_BOOT_MODE_ENTERED init_state))
     = REPORT_MODE_BOOT \<and>
   report_enabled
     (fst (mplayer_notif_handler HIDS_CCCD_EVT_NOTIF_ENABLED
        (fst (pm_evt_handler full_build HIDS_PM_EVT_BOOT_MODE_ENTERED init_state))))
     TARGET_REPORT_MPLAYER REPORT_MODE_PROTOCOL = True \<and>
   subscription_events
     (snd (mplayer_notif_handler HIDS_CCCD_EVT_NOTIF_ENABLED
        (fst (pm_evt_handler full_build HIDS_PM_EVT_BOOT_MODE_ENTERED init_state)))) = [] \<and>
   report_mode
     (fst (pm_evt_handler full_build HIDS_PM_EVT_REPORT_MODE_ENTERED
        (fst (mplayer_notif_handler HIDS_CCCD_EVT_NOTIF_ENABLED
           (fst (pm_evt_handler full_build HIDS_PM_EVT_BOOT_MODE_ENTERED init_state))))))
     = REPORT_MODE_PROTOCOL \<and>
   snd (pm_evt_handler full_build HIDS_PM_EVT_REPORT_MODE_ENTERED
        (fst (mplayer_notif_handler HIDS_CCCD_EVT_NOTIF_ENABLED
           (fst (pm_evt_handler full_build HIDS_PM_EVT_BOOT_MODE_ENTERED init_state)))))
     = [Sys_log ''Report mode'']"
proof -
  let ?s1 = "fst (pm_evt_handler full_build HIDS_PM_EVT_BOOT_MODE_ENTERED init_state)"
  let ?s2 = "fst (mplayer_notif_handler HIDS_CCCD_EVT_NOTIF_ENABLED ?s1)"
  have s1: "?s1 = init_state\<lparr>report_mode := REPORT_MODE_BOOT\<rparr>"
    by (simp add: pm_evt_handler_state)
  have s2: "?s2 = init_state\<lparr>report_mode := REPORT_MODE_BOOT,
      report_enabled := (report_enabled init_state)
        (TARGET_REPORT_MPLAYER :=
           (report_enabled init_state TARGET_REPORT_MPLAYER)(REPORT_MODE_PROTOCOL := True))\<rparr>"
    unfolding s1 by (simp add: mplayer_notif_handler_def notif_handler_def Let_def)
  have a: "report_mode ?s1 = REPORT_MODE_BOOT"
    unfolding s1 by simp
  have b: "report_enabled ?s2 TARGET_REPORT_MPLAYER REPORT_MODE_PROTOCOL = True"
    unfolding s2 by simp
  have c: "subscription_events
      (snd (mplayer_notif_handler HIDS_CCCD_EVT_NOTIF_ENABLED ?s1)) = []"
    unfolding s1 by (simp add: mplayer_notif_handler_def notif_handler_def Let_def)
  have d: "report_mode (fst (pm_evt_handler full_build HIDS_PM_EVT_REPORT_MODE_ENTERED ?s2))
      = REPORT_MODE_PROTOCOL"
    by (simp add: pm_evt_handler_state)
  have e: "snd (pm_evt_handler full_build HIDS_PM_EVT_REPORT_MODE_ENTERED ?s2)
      = [Sys_log ''Report mode'']"
    unfolding s2
    by (simp add: pm_evt_handler_def broadcast_subscription_change_def Let_def
        init_state_def full_build_def)
  from a b c d e show ?thesis
    by (intro conjI)
qed

text \<open>
  C8 (as amended).  A protocol-mode event after which the mode is what it was before (a
  repeated boot or report event, or an event that is neither) leaves the whole module
  state unchanged and emits no notification.  An event that is neither boot nor report
  takes the empty \<open>default\<close> branch: it has no effect at all, and in particular nothing
  is logged for it.
\<close>

theorem pm_evt_handler_no_mode_change:
  assumes "report_mode (fst (pm_evt_handler cfg evt s)) = report_mode s"
  shows "fst (pm_evt_handler cfg evt s) = s \<and>
     subscription_events (snd (pm_evt_handler cfg evt s)) = [] \<and>
     report_mode (fst (pm_evt_handler cfg (HIDS_PM_EVT_OTHER n) s)) = report_mode s \<and>
     pm_evt_handler cfg (HIDS_PM_EVT_OTHER n) s = (s, [])"
  using pm_evt_handler_same_mode [OF assms]
  by (simp add: pm_evt_handler_other)

theorem pm_evt_handler_no_mode_change_witness:
  "report_mode (fst (pm_evt_handler full_build HIDS_PM_EVT_BOOT_MODE_ENTERED
      (init_state\<lparr>report_mode := REPORT_MODE_BOOT\<rparr>)))
     = report_mode (init_state\<lparr>report_mode := REPORT_MODE_BOOT\<rparr>) \<and>
   fst (pm_evt_handler full_build HIDS_PM_EVT_BOOT_MODE_ENTERED
      (init_state\<lparr>report_mode := REPORT_MODE_BOOT\<rparr>))
     = init_state\<lparr>report_mode := REPORT_MODE_BOOT\<rparr> \<and>
   subscription_events (snd (pm_evt_handler full_build HIDS_PM_EVT_BOOT_MODE_ENTERED
      (init_state\<lparr>report_mode := REPORT_MODE_BOOT\<rparr>))) = []"
proof -
  have h: "report_mode (fst (pm_evt_handler full_build HIDS_PM_EVT_BOOT_MODE_ENTERED
      (init_state\<lparr>report_mode := REPORT_MODE_BOOT\<rparr>)))
     = report_mode (init_state\<lparr>report_mode := REPORT_MODE_BOOT\<rparr>)"
    by (simp add: pm_evt_handler_state)
  from h pm_evt_handler_no_mode_change [OF h] show ?thesis
    by blast
qed

text \<open>
  The specification has a malformed protocol-mode event logged before it is ignored;
  the handler produces no log line for it.
\<close>

theorem pm_evt_handler_malformed_counterexample:
  "filter is_log (snd (pm_evt_handler full_build (HIDS_PM_EVT_OTHER 2) init_state)) = []"
  by (simp add: pm_evt_handler_other)

section \<open>Properties of the event handler\<close>






end
